theory Spec2Isabelle
  imports Complex_Main
begin

section \<open>Overlay positioning of the tooltip and the contextual menu\<close>

text \<open>
  A shallow embedding of the positioning code of the two components in
  \<^verbatim>\<open>src/components/ContextualMenu/ContextualMenu.tsx\<close> (the file holds the
  contextual menu and, after a separator, the tooltip): the position resolver
  \<^verbatim>\<open>adjustForWindow\<close>, the geometry reader \<^verbatim>\<open>getPositionStyle\<close>, the menu's
  \<^verbatim>\<open>onResize\<close> handler and the tooltip's delayed opening.
\<close>

subsection \<open>JavaScript string operations used by the resolver\<close>

text \<open>
  A position is a string at run time. \<^verbatim>\<open>s.startsWith(p)\<close>, \<^verbatim>\<open>s.endsWith(p)\<close> and
  \<^verbatim>\<open>s.replace(pat, rep)\<close> with a string pattern: the first occurrence of \<^verbatim>\<open>pat\<close>
  is replaced, and a string without an occurrence is returned as it is. The
  replacement texts of the resolver contain no \<^verbatim>\<open>$\<close>, so the replacement is
  inserted literally. None of the three raises on a string receiver. The
  patterns of the resolver are ASCII; a \<^typ>\<open>string\<close> here is a list of 8-bit
  characters.
\<close>

fun startsWith :: "string \<Rightarrow> string \<Rightarrow> bool" where
  "startsWith s [] = True"
| "startsWith [] (c # p) = False"
| "startsWith (x # s) (c # p) = (x = c \<and> startsWith s p)"

definition endsWith :: "string \<Rightarrow> string \<Rightarrow> bool" where
  "endsWith s p = startsWith (rev s) (rev p)"

fun replace :: "string \<Rightarrow> string \<Rightarrow> string \<Rightarrow> string" where
  "replace [] pat rep = (if pat = [] then rep else [])"
| "replace (x # s) pat rep =
     (if startsWith (x # s) pat then rep @ drop (length pat) (x # s)
      else x # replace s pat rep)"

subsection \<open>Positions and window fitment\<close>

text \<open>The values of the \<^verbatim>\<open>position\<close> object of the tooltip, in its order.\<close>

definition positions :: "string list" where
  "positions = [''btm-center'', ''btm-left'', ''btm-right'', ''left'', ''right'',
                ''top-center'', ''top-left'', ''top-right'']"

text \<open>
  Modelled from the spec: the type \<^verbatim>\<open>WindowFitment\<close> is imported from
  \<^verbatim>\<open>hooks\<close>, which is not among the sources. The spec describes it as boolean
  fit flags for each of the four directions and for the centred placement; the
  field names are those the resolver reads
  (\<^verbatim>\<open>fitsWindow.fromLeft.fitsLeft\<close>, \<^verbatim>\<open>fitsWindow.fromCenter.fitsCentered.fitsRight\<close>, ...).
\<close>

record FitsWindow =
  fitsAbove :: bool
  fitsBelow :: bool
  fitsLeft :: bool
  fitsRight :: bool

record CenterFitment =
  fitsCentered :: FitsWindow

record WindowFitment =
  fromTop :: FitsWindow
  fromBottom :: FitsWindow
  fromLeft :: FitsWindow
  fromRight :: FitsWindow
  fromCenter :: CenterFitment

subsection \<open>The position resolver\<close>

text \<open>
  The last \<^verbatim>\<open>if\<close> statement of \<^verbatim>\<open>adjustForWindow\<close> (the centring step), on the
  working position \<^verbatim>\<open>newPosition\<close>. The two inner \<^verbatim>\<open>if\<close>s run one after the
  other, the second on the result of the first.
\<close>

definition centerStep :: "string \<Rightarrow> WindowFitment \<Rightarrow> string" where
  "centerStep newPosition fitsWindow =
     (if endsWith newPosition ''center'' \<and>
         (fitsRight (fitsCentered (fromCenter fitsWindow)) \<or>
          fitsLeft (fitsCentered (fromCenter fitsWindow)))
      then
        (let newPosition =
               (if \<not> fitsRight (fitsCentered (fromCenter fitsWindow))
                then replace newPosition ''center'' ''right'' else newPosition);
             newPosition =
               (if \<not> fitsLeft (fitsCentered (fromCenter fitsWindow))
                then replace newPosition ''center'' ''left'' else newPosition)
         in newPosition)
      else newPosition)"

text \<open>
  The same statement, also recording which replacements were executed, in
  order (the replacement text of each call of \<^verbatim>\<open>replace\<close> that ran).
\<close>

definition centerStepLog :: "string \<Rightarrow> WindowFitment \<Rightarrow> string \<times> string list" where
  "centerStepLog newPosition fitsWindow =
     (if endsWith newPosition ''center'' \<and>
         (fitsRight (fitsCentered (fromCenter fitsWindow)) \<or>
          fitsLeft (fitsCentered (fromCenter fitsWindow)))
      then
        (let (newPosition, fired) =
               (if \<not> fitsRight (fitsCentered (fromCenter fitsWindow))
                then (replace newPosition ''center'' ''right'', [''right''])
                else (newPosition, []));
             (newPosition, fired) =
               (if \<not> fitsLeft (fitsCentered (fromCenter fitsWindow))
                then (replace newPosition ''center'' ''left'', fired @ [''left''])
                else (newPosition, fired))
         in (newPosition, fired))
      else (newPosition, []))"

text \<open>
  The seven \<^verbatim>\<open>if\<close> statements before the centring step, one definition for
  each, in the order of the source. Each reads the working position
  \<^verbatim>\<open>newPosition\<close> and gives its new value.
\<close>

definition leftRule :: "string \<Rightarrow> WindowFitment \<Rightarrow> string" where
  "leftRule newPosition fitsWindow =
     (if \<not> fitsLeft (fromLeft fitsWindow) \<and> newPosition = ''left''
      then ''top-right'' else newPosition)"

definition rightRule :: "string \<Rightarrow> WindowFitment \<Rightarrow> string" where
  "rightRule newPosition fitsWindow =
     (if \<not> fitsRight (fromRight fitsWindow) \<and> newPosition = ''right''
      then ''top-left'' else newPosition)"

definition rightSuffixRule :: "string \<Rightarrow> WindowFitment \<Rightarrow> string" where
  "rightSuffixRule newPosition fitsWindow =
     (if \<not> fitsLeft (fromRight fitsWindow) \<and> endsWith newPosition ''-right''
      then replace newPosition ''right'' ''left'' else newPosition)"

definition leftSuffixRule :: "string \<Rightarrow> WindowFitment \<Rightarrow> string" where
  "leftSuffixRule newPosition fitsWindow =
     (if \<not> fitsRight (fromLeft fitsWindow) \<and> endsWith newPosition ''-left''
      then replace newPosition ''left'' ''right'' else newPosition)"

definition topRule :: "string \<Rightarrow> WindowFitment \<Rightarrow> string" where
  "topRule newPosition fitsWindow =
     (if \<not> fitsAbove (fromTop fitsWindow) \<and> startsWith newPosition ''top''
      then replace newPosition ''top'' ''btm'' else newPosition)"

definition btmRule :: "string \<Rightarrow> WindowFitment \<Rightarrow> string" where
  "btmRule newPosition fitsWindow =
     (if \<not> fitsBelow (fromBottom fitsWindow) \<and> startsWith newPosition ''btm''
      then replace newPosition ''btm'' ''top'' else newPosition)"

definition collapseRule :: "string \<Rightarrow> WindowFitment \<Rightarrow> string" where
  "collapseRule newPosition fitsWindow =
     (if \<not> fitsRight (fromLeft fitsWindow) \<and> \<not> fitsLeft (fromRight fitsWindow) \<and>
         (endsWith newPosition ''-left'' \<or> endsWith newPosition ''-right'')
      then replace (replace newPosition ''left'' ''center'') ''right'' ''center''
      else newPosition)"

text \<open>\<^verbatim>\<open>adjustForWindow\<close>: the statements run in sequence on \<^verbatim>\<open>newPosition\<close>.\<close>

definition adjustForWindow :: "string \<Rightarrow> WindowFitment \<Rightarrow> string" where
  "adjustForWindow position fitsWindow =
     (let newPosition = position;
          newPosition = leftRule newPosition fitsWindow;
          newPosition = rightRule newPosition fitsWindow;
          newPosition = rightSuffixRule newPosition fitsWindow;
          newPosition = leftSuffixRule newPosition fitsWindow;
          newPosition = topRule newPosition fitsWindow;
          newPosition = btmRule newPosition fitsWindow;
          newPosition = collapseRule newPosition fitsWindow;
          newPosition = centerStep newPosition fitsWindow
      in newPosition)"

text \<open>
  Fitments used as concrete inputs below: every flag true; centring fits on the
  left only; and centring fits on the left only while the right corner cannot
  extend to the left.
\<close>

definition fitsAll :: FitsWindow where
  "fitsAll = \<lparr>fitsAbove = True, fitsBelow = True, fitsLeft = True, fitsRight = True\<rparr>"

definition fitmentAll :: WindowFitment where
  "fitmentAll = \<lparr>fromTop = fitsAll, fromBottom = fitsAll, fromLeft = fitsAll,
                  fromRight = fitsAll, fromCenter = \<lparr>fitsCentered = fitsAll\<rparr>\<rparr>"

definition centerFitsLeftOnly :: WindowFitment where
  "centerFitsLeftOnly =
     fitmentAll\<lparr>fromCenter := \<lparr>fitsCentered = fitsAll\<lparr>fitsRight := False\<rparr>\<rparr>\<rparr>"

definition centerFitsRightOnly :: WindowFitment where
  "centerFitsRightOnly =
     fitmentAll\<lparr>fromCenter := \<lparr>fitsCentered = fitsAll\<lparr>fitsLeft := False\<rparr>\<rparr>\<rparr>"

definition centerLeftOnlyRightCornerBlocked :: WindowFitment where
  "centerLeftOnlyRightCornerBlocked =
     centerFitsLeftOnly\<lparr>fromRight := fitsAll\<lparr>fitsLeft := False\<rparr>\<rparr>"

text \<open>Every flag of a fitment is true.\<close>

definition allFit :: "FitsWindow \<Rightarrow> bool" where
  "allFit w = (fitsAbove w \<and> fitsBelow w \<and> fitsLeft w \<and> fitsRight w)"

definition everyDirectionFits :: "WindowFitment \<Rightarrow> bool" where
  "everyDirectionFits fitsWindow =
     (allFit (fromTop fitsWindow) \<and> allFit (fromBottom fitsWindow) \<and>
      allFit (fromLeft fitsWindow) \<and> allFit (fromRight fitsWindow) \<and>
      allFit (fitsCentered (fromCenter fitsWindow)))"

text \<open>
  A position that none of the resolver's tests matches: it is not \<^verbatim>\<open>left\<close> or
  \<^verbatim>\<open>right\<close>, has none of the suffixes \<^verbatim>\<open>-left\<close>, \<^verbatim>\<open>-right\<close>, \<^verbatim>\<open>center\<close> and
  none of the prefixes \<^verbatim>\<open>top\<close>, \<^verbatim>\<open>btm\<close>.
\<close>

definition unmatched :: "string \<Rightarrow> bool" where
  "unmatched s =
     (s \<noteq> ''left'' \<and> s \<noteq> ''right'' \<and> \<not> endsWith s ''-right'' \<and> \<not> endsWith s ''-left'' \<and>
      \<not> startsWith s ''top'' \<and> \<not> startsWith s ''btm'' \<and> \<not> endsWith s ''center'')"

subsection \<open>DOM elements and the portal\<close>

text \<open>
  What the components read of a DOM element: its \<^verbatim>\<open>offsetParent\<close> (null for an
  element that is not rendered), its bounding rectangle, and the result of
  \<^verbatim>\<open>querySelector(".p-contextual-menu__toggle")\<close> on it. Coordinates are
  JavaScript numbers; they are modelled as rationals, which is exact for the
  sums and halvings below as long as the values are exactly representable.
\<close>

record DOMRect =
  x :: rat
  y :: rat
  width :: rat
  height :: rat

datatype HTMLElement =
  HTMLElement (offsetParent: "HTMLElement option")
              (getBoundingClientRect: DOMRect)
              (querySelectorToggle: "HTMLElement option")

record Window =
  scrollX :: rat
  scrollY :: rat

text \<open>
  Modelled from the spec: \<^verbatim>\<open>usePortal\<close> comes from the package
  \<^verbatim>\<open>react-useportal\<close>, which is not among the sources. The spec describes it as
  a mechanism offering open and close operations and an \<^verbatim>\<open>isOpen\<close> flag.
\<close>

record Portal =
  isOpen :: bool

definition openPortal :: "'a Portal_scheme \<Rightarrow> 'a Portal_scheme" where
  "openPortal s = s\<lparr>isOpen := True\<rparr>"

definition closePortal :: "'a Portal_scheme \<Rightarrow> 'a Portal_scheme" where
  "closePortal s = s\<lparr>isOpen := False\<rparr>"

subsection \<open>The geometry reader of the tooltip\<close>

datatype CSSPosition = Static | Absolute | Fixed | Relative | Sticky | Initial | Inherit

record PositionStyle =
  left :: rat
  pointerEvents :: "string option"
  position :: CSSPosition
  top' :: rat

text \<open>\<^verbatim>\<open>v || 0\<close> on a number: zero is falsy (so is NaN, which a rational never is).\<close>

definition orZero :: "rat \<Rightarrow> rat" where
  "orZero v = (if v = 0 then 0 else v)"

text \<open>
  \<^verbatim>\<open>getPositionStyle\<close>, with the \<^verbatim>\<open>window\<close> it reads the scroll offsets from as a
  parameter. The \<^verbatim>\<open>switch\<close> adds to \<^verbatim>\<open>left\<close> and \<^verbatim>\<open>top\<close>; a position outside
  its cases adds nothing.
\<close>

definition getPositionStyle ::
  "Window \<Rightarrow> string \<Rightarrow> HTMLElement option \<Rightarrow> PositionStyle option" where
  "getPositionStyle window pos wrapperNode =
     (case wrapperNode of
        None \<Rightarrow> None
      | Some node \<Rightarrow>
          (let dimensions = getBoundingClientRect node;
               left0 = orZero (x dimensions + scrollX window);
               top0 = orZero (y dimensions + scrollY window);
               (left1, top1) =
                 (if pos = ''btm-center''
                    then (left0 + width dimensions / 2, top0 + height dimensions)
                  else if pos = ''btm-left''
                    then (left0, top0 + height dimensions)
                  else if pos = ''btm-right''
                    then (left0 + width dimensions, top0 + height dimensions)
                  else if pos = ''left''
                    then (left0, top0 + height dimensions / 2)
                  else if pos = ''right''
                    then (left0 + width dimensions, top0 + height dimensions / 2)
                  else if pos = ''top-center''
                    then (left0 + width dimensions / 2, top0)
                  else if pos = ''top-left''
                    then (left0, top0)
                  else if pos = ''top-right''
                    then (left0 + width dimensions, top0)
                  else (left0, top0))
           in Some \<lparr>left = left1, pointerEvents = None, position = Absolute, top' = top1\<rparr>))"

text \<open>The anchor of the spec's example and a window that is not scrolled.\<close>

definition exampleAnchor :: HTMLElement where
  "exampleAnchor =
     HTMLElement None \<lparr>x = 10, y = 20, width = 100, height = 50\<rparr> None"

definition unscrolled :: Window where
  "unscrolled = \<lparr>scrollX = 0, scrollY = 0\<rparr>"

subsection \<open>The resize handler of the contextual menu\<close>

definition getPositionNode ::
  "HTMLElement option \<Rightarrow> HTMLElement option \<Rightarrow> HTMLElement option" where
  "getPositionNode wrapper positionNode =
     (case positionNode of
        Some n \<Rightarrow> Some n
      | None \<Rightarrow>
          (case wrapper of
             Some w \<Rightarrow>
               (case querySelectorToggle w of Some toggle \<Rightarrow> Some toggle | None \<Rightarrow> Some w)
           | None \<Rightarrow> None))"

definition getPositionNodeVisible :: "HTMLElement option \<Rightarrow> bool" where
  "getPositionNodeVisible positionNode =
     (case positionNode of None \<Rightarrow> True | Some n \<Rightarrow> offsetParent n \<noteq> None)"

text \<open>
  The state of the menu that the handler touches: the portal's \<^verbatim>\<open>isOpen\<close> and
  the \<^verbatim>\<open>positionCoords\<close> state variable (initially undefined).
\<close>

record MenuState = Portal +
  positionCoords :: "DOMRect option"

definition updatePositionCoords ::
  "HTMLElement option \<Rightarrow> HTMLElement option \<Rightarrow> MenuState \<Rightarrow> MenuState" where
  "updatePositionCoords wrapper positionNode s =
     (case getPositionNode wrapper positionNode of
        None \<Rightarrow> s
      | Some parent \<Rightarrow> s\<lparr>positionCoords := Some (getBoundingClientRect parent)\<rparr>)"

definition onResize ::
  "HTMLElement option \<Rightarrow> HTMLElement option \<Rightarrow> MenuState \<Rightarrow> MenuState" where
  "onResize wrapper positionNode s =
     (let parent = getPositionNode wrapper positionNode
      in if parent \<noteq> None \<and> \<not> getPositionNodeVisible parent
         then closePortal s
         else updatePositionCoords wrapper positionNode s)"

text \<open>
  \<^verbatim>\<open>useListener(window, onResize, "resize", true, isOpen)\<close>: the handler is
  attached while the menu is open, so a resize event runs it only then.
\<close>

definition resizeEvent ::
  "HTMLElement option \<Rightarrow> HTMLElement option \<Rightarrow> MenuState \<Rightarrow> MenuState" where
  "resizeEvent wrapper positionNode s =
     (if isOpen s then onResize wrapper positionNode s else s)"

text \<open>A hidden and a visible toggle inside a wrapper, and an open menu.\<close>

definition exampleRect :: DOMRect where
  "exampleRect = \<lparr>x = 10, y = 20, width = 100, height = 50\<rparr>"

definition bodyElement :: HTMLElement where
  "bodyElement = HTMLElement None \<lparr>x = 0, y = 0, width = 800, height = 600\<rparr> None"

definition hiddenToggle :: HTMLElement where
  "hiddenToggle = HTMLElement None \<lparr>x = 0, y = 0, width = 0, height = 0\<rparr> None"

definition visibleToggle :: HTMLElement where
  "visibleToggle = HTMLElement (Some bodyElement) exampleRect None"

definition wrapperOf :: "HTMLElement \<Rightarrow> HTMLElement" where
  "wrapperOf toggle = HTMLElement (Some bodyElement) exampleRect (Some toggle)"

definition openMenu :: MenuState where
  "openMenu = \<lparr>isOpen = True, positionCoords = None\<rparr>"

subsection \<open>The delayed opening of the tooltip\<close>

text \<open>
  The tooltip's state is the portal's \<^verbatim>\<open>isOpen\<close> and the \<^verbatim>\<open>timer\<close> state variable
  (the handle stored by \<^verbatim>\<open>setTimer\<close>, initially null). The environment's timers
  are part of the model: \<^verbatim>\<open>pending\<close> lists the handles of the scheduled
  \<^verbatim>\<open>openPortal\<close> callbacks that have neither run nor been cleared, oldest first,
  and \<^verbatim>\<open>nextHandle\<close> is the handle the next \<^verbatim>\<open>setTimeout\<close> returns. Real time
  is abstracted to the order of events: the delay of a timeout has elapsed when
  its callback is run. The component is rendered again between two events, so
  every handler sees the current value of \<^verbatim>\<open>timer\<close>.
\<close>

record TooltipState = Portal +
  timer :: "nat option"
  pending :: "nat list"
  nextHandle :: nat

text \<open>\<^verbatim>\<open>setTimeout(() => openPortal(), delay)\<close> and \<^verbatim>\<open>clearTimeout(handle)\<close>.\<close>

definition setTimeoutOpenPortal :: "TooltipState \<Rightarrow> nat \<times> TooltipState" where
  "setTimeoutOpenPortal s =
     (nextHandle s, s\<lparr>pending := pending s @ [nextHandle s], nextHandle := nextHandle s + 1\<rparr>)"

definition clearTimeout :: "nat option \<Rightarrow> TooltipState \<Rightarrow> TooltipState" where
  "clearTimeout handle s =
     (case handle of None \<Rightarrow> s | Some h \<Rightarrow> s\<lparr>pending := removeAll h (pending s)\<rparr>)"

text \<open>The environment runs the callback of a timeout that is still pending.\<close>

definition timeoutElapsed :: "nat \<Rightarrow> TooltipState \<Rightarrow> TooltipState" where
  "timeoutElapsed h s =
     (if h \<in> set (pending s) then openPortal (s\<lparr>pending := removeAll h (pending s)\<rparr>) else s)"

definition delayedOpenPortal :: "TooltipState \<Rightarrow> TooltipState" where
  "delayedOpenPortal s =
     (let (timeout, s) = setTimeoutOpenPortal s in s\<lparr>timer := Some timeout\<rparr>)"

definition cancelableClosePortal :: "TooltipState \<Rightarrow> TooltipState" where
  "cancelableClosePortal s = closePortal (clearTimeout (timer s) s)"

definition handleKeyPress :: "string \<Rightarrow> TooltipState \<Rightarrow> TooltipState" where
  "handleKeyPress key s = (if key = ''Escape'' then cancelableClosePortal s else s)"

text \<open>
  What \<^verbatim>\<open>handleBlur\<close> reads of its event and of the document:
  \<^verbatim>\<open>wrapperRef?.current?.contains(document.activeElement)\<close>; whether
  \<^verbatim>\<open>e.relatedTarget\<close> is set and, if it is, whether
  \<^verbatim>\<open>messageRef.current?.contains(e.relatedTarget)\<close>; and
  \<^verbatim>\<open>e.target === messageRef.current\<close>.
\<close>

record BlurEvent =
  focusWithinWrapper :: bool
  relatedTargetInMessage :: "bool option"
  targetIsMessage :: bool

definition handleBlur :: "BlurEvent \<Rightarrow> TooltipState \<Rightarrow> TooltipState" where
  "handleBlur e s =
     (if focusWithinWrapper e then s
      else if (case relatedTargetInMessage e of
                 Some inMessage \<Rightarrow> \<not> inMessage
               | None \<Rightarrow> \<not> targetIsMessage e)
           then cancelableClosePortal s
           else s)"

text \<open>
  The events of a hover session: \<^verbatim>\<open>onMouseOver\<close> is \<^verbatim>\<open>delayedOpenPortal\<close>,
  \<^verbatim>\<open>onMouseOut\<close> and \<^verbatim>\<open>onBlur\<close> are \<^verbatim>\<open>handleBlur\<close>, a key press goes to
  \<^verbatim>\<open>handleKeyPress\<close>, and the delay of a timeout elapses.
\<close>

datatype TooltipEvent =
  MouseOver
| MouseOut BlurEvent
| Blur BlurEvent
| KeyPress string
| TimeoutElapsed nat

fun tooltipStep :: "TooltipState \<Rightarrow> TooltipEvent \<Rightarrow> TooltipState" where
  "tooltipStep s MouseOver = delayedOpenPortal s"
| "tooltipStep s (MouseOut e) = handleBlur e s"
| "tooltipStep s (Blur e) = handleBlur e s"
| "tooltipStep s (KeyPress key) = handleKeyPress key s"
| "tooltipStep s (TimeoutElapsed h) = timeoutElapsed h s"

definition runTooltip :: "TooltipState \<Rightarrow> TooltipEvent list \<Rightarrow> TooltipState" where
  "runTooltip s events = foldl tooltipStep s events"

text \<open>
  A closed tooltip with no timeout scheduled, and a pointer that leaves the
  tooltip's element for the page while the focus is elsewhere.
\<close>

definition closedTooltip :: TooltipState where
  "closedTooltip = \<lparr>isOpen = False, timer = None, pending = [], nextHandle = 1\<rparr>"

definition pointerLeaves :: BlurEvent where
  "pointerLeaves =
     \<lparr>focusWithinWrapper = False, relatedTargetInMessage = Some False, targetIsMessage = False\<rparr>"

section \<open>Properties of the position resolver\<close>

subsection \<open>Strings\<close>

lemma startsWith_append: "startsWith (p @ s) p"
  by (induction p) simp_all

lemma startsWith_self: "startsWith p p"
  using startsWith_append [of p "[]"] by simp

lemma endsWith_append: "endsWith (s @ p) p"
  by (simp add: endsWith_def startsWith_append)

lemma replace_after_prefix:
  "a \<notin> set pre \<Longrightarrow> replace (pre @ a # pat) (a # pat) rep = pre @ rep"
  by (induction pre) (auto simp add: startsWith_self)

subsection \<open>The rules on the eight positions\<close>

lemma adjustForWindow_rules:
  "adjustForWindow p f =
   centerStep (collapseRule (btmRule (topRule (leftSuffixRule (rightSuffixRule
     (rightRule (leftRule p f) f) f) f) f) f) f) f"
  by (simp add: adjustForWindow_def)

lemma leftRule_positions:
  "leftRule ''btm-center'' f = ''btm-center''"
  "leftRule ''btm-left'' f = ''btm-left''"
  "leftRule ''btm-right'' f = ''btm-right''"
  "leftRule ''left'' f = (if fitsLeft (fromLeft f) then ''left'' else ''top-right'')"
  "leftRule ''right'' f = ''right''"
  "leftRule ''top-center'' f = ''top-center''"
  "leftRule ''top-left'' f = ''top-left''"
  "leftRule ''top-right'' f = ''top-right''"
  by (simp_all add: leftRule_def)

lemma rightRule_positions:
  "rightRule ''btm-center'' f = ''btm-center''"
  "rightRule ''btm-left'' f = ''btm-left''"
  "rightRule ''btm-right'' f = ''btm-right''"
  "rightRule ''left'' f = ''left''"
  "rightRule ''right'' f = (if fitsRight (fromRight f) then ''right'' else ''top-left'')"
  "rightRule ''top-center'' f = ''top-center''"
  "rightRule ''top-left'' f = ''top-left''"
  "rightRule ''top-right'' f = ''top-right''"
  by (simp_all add: rightRule_def)

lemma rightSuffixRule_positions:
  "rightSuffixRule ''btm-center'' f = ''btm-center''"
  "rightSuffixRule ''btm-left'' f = ''btm-left''"
  "rightSuffixRule ''btm-right'' f =
     (if fitsLeft (fromRight f) then ''btm-right'' else ''btm-left'')"
  "rightSuffixRule ''left'' f = ''left''"
  "rightSuffixRule ''right'' f = ''right''"
  "rightSuffixRule ''top-center'' f = ''top-center''"
  "rightSuffixRule ''top-left'' f = ''top-left''"
  "rightSuffixRule ''top-right'' f =
     (if fitsLeft (fromRight f) then ''top-right'' else ''top-left'')"
  by (simp_all add: rightSuffixRule_def endsWith_def)

lemma leftSuffixRule_positions:
  "leftSuffixRule ''btm-center'' f = ''btm-center''"
  "leftSuffixRule ''btm-left'' f =
     (if fitsRight (fromLeft f) then ''btm-left'' else ''btm-right'')"
  "leftSuffixRule ''btm-right'' f = ''btm-right''"
  "leftSuffixRule ''left'' f = ''left''"
  "leftSuffixRule ''right'' f = ''right''"
  "leftSuffixRule ''top-center'' f = ''top-center''"
  "leftSuffixRule ''top-left'' f =
     (if fitsRight (fromLeft f) then ''top-left'' else ''top-right'')"
  "leftSuffixRule ''top-right'' f = ''top-right''"
  by (simp_all add: leftSuffixRule_def endsWith_def)

lemma topRule_positions:
  "topRule ''btm-center'' f = ''btm-center''"
  "topRule ''btm-left'' f = ''btm-left''"
  "topRule ''btm-right'' f = ''btm-right''"
  "topRule ''left'' f = ''left''"
  "topRule ''right'' f = ''right''"
  "topRule ''top-center'' f = (if fitsAbove (fromTop f) then ''top-center'' else ''btm-center'')"
  "topRule ''top-left'' f = (if fitsAbove (fromTop f) then ''top-left'' else ''btm-left'')"
  "topRule ''top-right'' f = (if fitsAbove (fromTop f) then ''top-right'' else ''btm-right'')"
  by (simp_all add: topRule_def)

lemma btmRule_positions:
  "btmRule ''btm-center'' f =
     (if fitsBelow (fromBottom f) then ''btm-center'' else ''top-center'')"
  "btmRule ''btm-left'' f = (if fitsBelow (fromBottom f) then ''btm-left'' else ''top-left'')"
  "btmRule ''btm-right'' f = (if fitsBelow (fromBottom f) then ''btm-right'' else ''top-right'')"
  "btmRule ''left'' f = ''left''"
  "btmRule ''right'' f = ''right''"
  "btmRule ''top-center'' f = ''top-center''"
  "btmRule ''top-left'' f = ''top-left''"
  "btmRule ''top-right'' f = ''top-right''"
  by (simp_all add: btmRule_def)

lemma collapseRule_positions:
  "collapseRule ''btm-center'' f = ''btm-center''"
  "collapseRule ''btm-left'' f =
     (if \<not> fitsRight (fromLeft f) \<and> \<not> fitsLeft (fromRight f)
      then ''btm-center'' else ''btm-left'')"
  "collapseRule ''btm-right'' f =
     (if \<not> fitsRight (fromLeft f) \<and> \<not> fitsLeft (fromRight f)
      then ''btm-center'' else ''btm-right'')"
  "collapseRule ''left'' f = ''left''"
  "collapseRule ''right'' f = ''right''"
  "collapseRule ''top-center'' f = ''top-center''"
  "collapseRule ''top-left'' f =
     (if \<not> fitsRight (fromLeft f) \<and> \<not> fitsLeft (fromRight f)
      then ''top-center'' else ''top-left'')"
  "collapseRule ''top-right'' f =
     (if \<not> fitsRight (fromLeft f) \<and> \<not> fitsLeft (fromRight f)
      then ''top-center'' else ''top-right'')"
  by (simp_all add: collapseRule_def endsWith_def)

lemma centerStep_positions:
  "centerStep ''btm-center'' f =
     (if fitsRight (fitsCentered (fromCenter f))
      then (if fitsLeft (fitsCentered (fromCenter f)) then ''btm-center'' else ''btm-left'')
      else (if fitsLeft (fitsCentered (fromCenter f)) then ''btm-right'' else ''btm-center''))"
  "centerStep ''btm-left'' f = ''btm-left''"
  "centerStep ''btm-right'' f = ''btm-right''"
  "centerStep ''left'' f = ''left''"
  "centerStep ''right'' f = ''right''"
  "centerStep ''top-center'' f =
     (if fitsRight (fitsCentered (fromCenter f))
      then (if fitsLeft (fitsCentered (fromCenter f)) then ''top-center'' else ''top-left'')
      else (if fitsLeft (fitsCentered (fromCenter f)) then ''top-right'' else ''top-center''))"
  "centerStep ''top-left'' f = ''top-left''"
  "centerStep ''top-right'' f = ''top-right''"
  by (simp_all add: centerStep_def endsWith_def)

lemmas rules_positions = leftRule_positions rightRule_positions rightSuffixRule_positions
  leftSuffixRule_positions topRule_positions btmRule_positions collapseRule_positions
  centerStep_positions

text \<open>Each rule is applied to either branch of a position that depends on a flag.\<close>

lemma rules_if:
  "leftRule (if c then a else b) f = (if c then leftRule a f else leftRule b f)"
  "rightRule (if c then a else b) f = (if c then rightRule a f else rightRule b f)"
  "rightSuffixRule (if c then a else b) f =
     (if c then rightSuffixRule a f else rightSuffixRule b f)"
  "leftSuffixRule (if c then a else b) f =
     (if c then leftSuffixRule a f else leftSuffixRule b f)"
  "topRule (if c then a else b) f = (if c then topRule a f else topRule b f)"
  "btmRule (if c then a else b) f = (if c then btmRule a f else btmRule b f)"
  "collapseRule (if c then a else b) f = (if c then collapseRule a f else collapseRule b f)"
  "centerStep (if c then a else b) f = (if c then centerStep a f else centerStep b f)"
  by simp_all

lemma positions_cases:
  "p \<in> set positions \<Longrightarrow>
     p = ''btm-center'' \<or> p = ''btm-left'' \<or> p = ''btm-right'' \<or> p = ''left'' \<or>
     p = ''right'' \<or> p = ''top-center'' \<or> p = ''top-left'' \<or> p = ''top-right''"
  by (simp add: positions_def)

lemma endsWith_center_positions:
  "endsWith ''btm-center'' ''-center''" "\<not> endsWith ''btm-left'' ''-center''"
  "\<not> endsWith ''btm-right'' ''-center''" "\<not> endsWith ''left'' ''-center''"
  "\<not> endsWith ''right'' ''-center''" "endsWith ''top-center'' ''-center''"
  "\<not> endsWith ''top-left'' ''-center''" "\<not> endsWith ''top-right'' ''-center''"
  by (simp_all add: endsWith_def)

lemmas fitment_defs = fitsAll_def fitmentAll_def centerFitsLeftOnly_def
  centerFitsRightOnly_def centerLeftOnlyRightCornerBlocked_def

subsection \<open>The resolver on fitments\<close>

text \<open>
  Claim C1. When every fit flag of the fitment is true, \<^verbatim>\<open>adjustForWindow\<close>
  returns the requested position unchanged. This holds for every string, so in
  particular for every position of the enumerated set.
\<close>

theorem adjustForWindow_all_fit:
  "everyDirectionFits f \<Longrightarrow> adjustForWindow p f = p"
  by (simp add: everyDirectionFits_def allFit_def adjustForWindow_def leftRule_def
        rightRule_def rightSuffixRule_def leftSuffixRule_def topRule_def btmRule_def
        collapseRule_def centerStep_def)

theorem adjustForWindow_all_fit_witness:
  "everyDirectionFits fitmentAll \<and> ''btm-left'' \<in> set positions \<and>
   adjustForWindow ''btm-left'' fitmentAll = ''btm-left''"
proof -
  have h: "everyDirectionFits fitmentAll"
    by (simp add: everyDirectionFits_def allFit_def fitmentAll_def fitsAll_def)
  show ?thesis
    using h adjustForWindow_all_fit [OF h, of "''btm-left''"] by (simp add: positions_def)
qed

text \<open>
  A second run of \<^verbatim>\<open>adjustForWindow\<close> with the same fitment. For a position of
  the enumerated set it gives the result of the first run, except when the
  requested position is \<^verbatim>\<open>top-center\<close> or \<^verbatim>\<open>btm-center\<close>, centring fits on the
  left only, the right corner cannot extend left and the left corner can extend
  right (or the mirror image). These are exactly the inputs at which the two
  runs differ.
\<close>

lemma adjustForWindow_second_run:
  "p \<in> set positions \<Longrightarrow>
   (adjustForWindow (adjustForWindow p f) f = adjustForWindow p f) =
   (\<not> (endsWith p ''-center'' \<and>
        (fitsLeft (fitsCentered (fromCenter f)) \<and> \<not> fitsRight (fitsCentered (fromCenter f)) \<and>
           \<not> fitsLeft (fromRight f) \<and> fitsRight (fromLeft f) \<or>
         \<not> fitsLeft (fitsCentered (fromCenter f)) \<and> fitsRight (fitsCentered (fromCenter f)) \<and>
           fitsLeft (fromRight f) \<and> \<not> fitsRight (fromLeft f))))"
  by (drule positions_cases, elim disjE)
     (simp_all add: adjustForWindow_rules rules_positions rules_if endsWith_center_positions)

text \<open>
  The spec describes a fitment as a snapshot measured for one anchor. When the
  four horizontal flags the exception reads are each measured from the same
  anchor (edges \<open>aL\<close> and \<open>aR\<close>), the same overlay width \<open>ow\<close> and the same
  visible extent from \<open>lo\<close> to \<open>hi\<close>, the exception cannot arise, and the second
  run gives the result of the first. The measuring hook is not among the
  sources; the resolver itself is exported and takes any value of the type.
\<close>

lemma adjustForWindow_second_run_measured:
  fixes aL aR ow lo hi :: rat
  assumes "p \<in> set positions"
    and "fitsRight (fromLeft f) = (aL + ow \<le> hi)"
    and "fitsLeft (fromRight f) = (lo \<le> aR - ow)"
    and "fitsLeft (fitsCentered (fromCenter f)) = (lo \<le> (aL + aR) / 2 - ow / 2)"
    and "fitsRight (fitsCentered (fromCenter f)) = ((aL + aR) / 2 + ow / 2 \<le> hi)"
  shows "adjustForWindow (adjustForWindow p f) f = adjustForWindow p f"
proof -
  have "\<not> (lo \<le> (aL + aR) / 2 - ow / 2 \<and> \<not> (aL + aR) / 2 + ow / 2 \<le> hi \<and>
            \<not> lo \<le> aR - ow \<and> aL + ow \<le> hi)"
    by (simp add: field_simps) linarith
  moreover have "\<not> (\<not> lo \<le> (aL + aR) / 2 - ow / 2 \<and> (aL + aR) / 2 + ow / 2 \<le> hi \<and>
                     lo \<le> aR - ow \<and> \<not> aL + ow \<le> hi)"
    by (simp add: field_simps) linarith
  ultimately show ?thesis
    using assms by (simp add: adjustForWindow_second_run)
qed


text \<open>
  Claim C3. For a requested position of the enumerated set and any fitment, the
  result of \<^verbatim>\<open>adjustForWindow\<close> is a position of the enumerated set.
\<close>

theorem adjustForWindow_in_positions:
  "p \<in> set positions \<Longrightarrow> adjustForWindow p f \<in> set positions"
  by (drule positions_cases, elim disjE)
     (simp_all add: adjustForWindow_rules rules_positions rules_if positions_def)

theorem adjustForWindow_in_positions_witness:
  "''left'' \<in> set positions \<and>
   adjustForWindow ''left'' centerLeftOnlyRightCornerBlocked \<in> set positions"
proof -
  have h: "''left'' \<in> set positions"
    by (simp add: positions_def)
  show ?thesis
    using h adjustForWindow_in_positions [OF h, of centerLeftOnlyRightCornerBlocked]
    by simp
qed

subsection \<open>The centring step\<close>

lemma centerStep_prefix:
  assumes "CHR ''c'' \<notin> set pre"
    and "fitsRight (fitsCentered (fromCenter f)) \<noteq> fitsLeft (fitsCentered (fromCenter f))"
  shows "centerStep (pre @ ''center'') f =
         pre @ (if fitsRight (fitsCentered (fromCenter f)) then ''left'' else ''right'')"
  using assms
  by (auto simp add: centerStep_def endsWith_append replace_after_prefix)

text \<open>
  Claim C4. The claim as stated fails: when centring fits on the left and not
  on the right, the step rewrites \<^verbatim>\<open>top-center\<close> to \<^verbatim>\<open>top-right\<close>, which names
  the side that does not fit, and not to \<^verbatim>\<open>top-left\<close>.
\<close>

theorem centerStep_fitting_side_counterexample:
  "endsWith ''top-center'' ''center'' \<and>
   fitsLeft (fitsCentered (fromCenter centerFitsLeftOnly)) \<and>
   \<not> fitsRight (fitsCentered (fromCenter centerFitsLeftOnly)) \<and>
   centerStep ''top-center'' centerFitsLeftOnly = ''top-right'' \<and>
   centerStep ''top-center'' centerFitsLeftOnly \<noteq> ''top-left''"
  by (simp add: centerStep_positions endsWith_def fitment_defs)

text \<open>
  Claim C4, amended. In the centring step, for every working position that
  ends in \<^verbatim>\<open>center\<close>, when centring fits on exactly one side the first
  occurrence of \<^verbatim>\<open>center\<close> is replaced by the name of the side on which
  centring does not fit: by \<^verbatim>\<open>right\<close> when it fits on the left only, by
  \<^verbatim>\<open>left\<close> when it fits on the right only. (The corner so named extends
  towards the side that fits.) For \<^verbatim>\<open>top-center\<close>, \<^verbatim>\<open>btm-center\<close> and
  \<^verbatim>\<open>center\<close> the first occurrence is the suffix, by \<open>centerStep_prefix\<close>.
\<close>

theorem centerStep_one_side:
  assumes "endsWith w ''center''"
    and "fitsRight (fitsCentered (fromCenter f)) \<noteq> fitsLeft (fitsCentered (fromCenter f))"
  shows "centerStep w f =
         replace w ''center''
           (if fitsRight (fitsCentered (fromCenter f)) then ''left'' else ''right'')"
  using assms by (auto simp add: centerStep_def)

theorem centerStep_one_side_witness:
  "endsWith ''btm-center'' ''center'' \<and>
   fitsRight (fitsCentered (fromCenter centerFitsRightOnly)) \<noteq>
     fitsLeft (fitsCentered (fromCenter centerFitsRightOnly)) \<and>
   centerStep ''btm-center'' centerFitsRightOnly = ''btm-left''"
proof -
  have h1: "endsWith ''btm-center'' ''center''"
    by (simp add: endsWith_def)
  have h2: "fitsRight (fitsCentered (fromCenter centerFitsRightOnly)) \<noteq>
            fitsLeft (fitsCentered (fromCenter centerFitsRightOnly))"
    by (simp add: fitment_defs)
  show ?thesis
    using h1 h2 centerStep_one_side [OF h1 h2] by (simp add: fitment_defs)
qed

text \<open>
  Claim C10. In the centring step at most one of the two replacements is
  executed, whatever the working position and the fitment: the log of executed
  replacements has at most one entry, the logged step computes the same
  position as the step itself, and the result is the working position with no
  or with one replacement applied.
\<close>

theorem centerStep_at_most_one_replacement:
  "length (snd (centerStepLog w f)) \<le> 1 \<and>
   fst (centerStepLog w f) = centerStep w f \<and>
   centerStep w f \<in> {w, replace w ''center'' ''right'', replace w ''center'' ''left''}"
  by (simp add: centerStepLog_def centerStep_def)

subsection \<open>Positions outside the enumerated set\<close>

text \<open>
  Claim C5. The claim as stated fails: the bare \<^verbatim>\<open>center\<close> of the menu is not
  in the tooltip's set of positions, and the centring step rewrites it to
  \<^verbatim>\<open>right\<close> when centring fits on the left only.
\<close>

theorem adjustForWindow_center_counterexample:
  "''center'' \<notin> set positions \<and>
   adjustForWindow ''center'' centerFitsLeftOnly = ''right'' \<and>
   adjustForWindow ''center'' centerFitsLeftOnly \<noteq> ''center''"
  by (simp add: positions_def adjustForWindow_rules leftRule_def rightRule_def
        rightSuffixRule_def leftSuffixRule_def topRule_def btmRule_def collapseRule_def
        centerStep_def endsWith_def fitment_defs)

text \<open>
  Claim C5, amended. A position that no test of the resolver matches (it is not
  \<^verbatim>\<open>left\<close> or \<^verbatim>\<open>right\<close>, does not end in \<^verbatim>\<open>-left\<close>, \<^verbatim>\<open>-right\<close> or \<^verbatim>\<open>center\<close>
  and does not start with \<^verbatim>\<open>top\<close> or \<^verbatim>\<open>btm\<close>) is returned unchanged for every
  fitment. The resolver is a total function on strings: no step of it raises.
\<close>

theorem adjustForWindow_unmatched:
  "unmatched p \<Longrightarrow> adjustForWindow p f = p"
  by (simp add: unmatched_def adjustForWindow_def leftRule_def rightRule_def
        rightSuffixRule_def leftSuffixRule_def topRule_def btmRule_def collapseRule_def
        centerStep_def)

theorem adjustForWindow_unmatched_witness:
  "unmatched ''middle'' \<and> ''middle'' \<notin> set positions \<and>
   adjustForWindow ''middle'' centerLeftOnlyRightCornerBlocked = ''middle''"
proof -
  have h: "unmatched ''middle''"
    by (simp add: unmatched_def endsWith_def)
  show ?thesis
    using h adjustForWindow_unmatched [OF h, of centerLeftOnlyRightCornerBlocked]
    by (simp add: positions_def)
qed

section \<open>Properties of the geometry reader\<close>

text \<open>
  Claim C7. For the anchor rectangle with corner (10, 20), width 100 and height
  50 in a window that is not scrolled, \<^verbatim>\<open>getPositionStyle\<close> returns the absolute
  style with left 10 and top 20 for \<^verbatim>\<open>top-left\<close>, and left 60 and top 70 for
  \<^verbatim>\<open>btm-center\<close>.
\<close>

theorem getPositionStyle_example:
  "getPositionStyle unscrolled ''top-left'' (Some exampleAnchor) =
     Some \<lparr>left = 10, pointerEvents = None, position = Absolute, top' = 20\<rparr> \<and>
   getPositionStyle unscrolled ''btm-center'' (Some exampleAnchor) =
     Some \<lparr>left = 60, pointerEvents = None, position = Absolute, top' = 70\<rparr>"
  by (simp add: getPositionStyle_def exampleAnchor_def unscrolled_def orZero_def)

text \<open>
  Claim C8. \<^verbatim>\<open>getPositionStyle\<close> returns null exactly when there is no anchor
  element, and every style it returns has \<^verbatim>\<open>position: "absolute"\<close>.
\<close>

theorem getPositionStyle_null_iff:
  "(getPositionStyle w pos node = None) = (node = None) \<and>
   (\<forall>style. getPositionStyle w pos node = Some style \<longrightarrow> position style = Absolute)"
  by (cases node) (auto simp add: getPositionStyle_def Let_def split: prod.splits)

theorem getPositionStyle_null_iff_witness:
  "getPositionStyle unscrolled ''right'' None = None \<and>
   getPositionStyle unscrolled ''right'' (Some exampleAnchor) =
     Some \<lparr>left = 110, pointerEvents = None, position = Absolute, top' = 45\<rparr> \<and>
   position \<lparr>left = 110, pointerEvents = None, position = Absolute, top' = 45\<rparr> = Absolute"
proof -
  have h: "getPositionStyle unscrolled ''right'' (Some exampleAnchor) =
           Some \<lparr>left = 110, pointerEvents = None, position = Absolute, top' = 45\<rparr>"
    by (simp add: getPositionStyle_def exampleAnchor_def unscrolled_def orZero_def)
  show ?thesis
    using h getPositionStyle_null_iff [of unscrolled "''right''" None]
      getPositionStyle_null_iff [of unscrolled "''right''" "Some exampleAnchor"]
    by simp
qed

section \<open>Properties of the menu's resize handler\<close>

lemma getPositionNode_examples:
  "getPositionNode (Some (wrapperOf hiddenToggle)) None = Some hiddenToggle"
  "getPositionNode (Some (wrapperOf visibleToggle)) None = Some visibleToggle"
  by (simp_all add: getPositionNode_def wrapperOf_def)

text \<open>
  Claim C9. On a resize event while the menu is open, with an anchor node
  present: if the anchor's offset parent is null the menu is closed (and the
  coordinates are left as they were); otherwise the coordinates are set to the
  anchor's bounding rectangle and the menu stays open.
\<close>

theorem resizeEvent_hidden_or_visible:
  assumes "isOpen s"
    and "getPositionNode wrapper positionNode = Some anchor"
  shows "(offsetParent anchor = None \<longrightarrow>
            \<not> isOpen (resizeEvent wrapper positionNode s) \<and>
            positionCoords (resizeEvent wrapper positionNode s) = positionCoords s) \<and>
         (offsetParent anchor \<noteq> None \<longrightarrow>
            isOpen (resizeEvent wrapper positionNode s) \<and>
            positionCoords (resizeEvent wrapper positionNode s) =
              Some (getBoundingClientRect anchor))"
  using assms
  by (simp add: resizeEvent_def onResize_def getPositionNodeVisible_def
        updatePositionCoords_def closePortal_def)

theorem resizeEvent_hidden_or_visible_witness:
  "isOpen openMenu \<and>
   offsetParent hiddenToggle = None \<and>
   \<not> isOpen (resizeEvent (Some (wrapperOf hiddenToggle)) None openMenu) \<and>
   offsetParent visibleToggle \<noteq> None \<and>
   isOpen (resizeEvent (Some (wrapperOf visibleToggle)) None openMenu) \<and>
   positionCoords (resizeEvent (Some (wrapperOf visibleToggle)) None openMenu) =
     Some exampleRect"
proof -
  have h: "isOpen openMenu"
    by (simp add: openMenu_def)
  have hid: "offsetParent hiddenToggle = None"
    by (simp add: hiddenToggle_def)
  have vis: "offsetParent visibleToggle \<noteq> None"
    by (simp add: visibleToggle_def)
  have rect: "getBoundingClientRect visibleToggle = exampleRect"
    by (simp add: visibleToggle_def)
  show ?thesis
    using h hid vis rect
      resizeEvent_hidden_or_visible [OF h getPositionNode_examples(1)]
      resizeEvent_hidden_or_visible [OF h getPositionNode_examples(2)]
    by simp
qed

section \<open>The delayed opening of the tooltip\<close>

text \<open>
  A dismissal clears the timeout whose handle is stored in \<^verbatim>\<open>timer\<close> and closes
  the portal; a hover start stores a new handle and leaves the timeouts that
  are already pending as they are.
\<close>

lemma cancelableClosePortal_clears_stored:
  "timer s = Some h \<Longrightarrow>
   \<not> isOpen (cancelableClosePortal s) \<and>
   pending (cancelableClosePortal s) = removeAll h (pending s)"
  by (simp add: cancelableClosePortal_def clearTimeout_def closePortal_def)

lemma delayedOpenPortal_keeps_pending:
  "timer (delayedOpenPortal s) = Some (nextHandle s) \<and>
   pending (delayedOpenPortal s) = pending s @ [nextHandle s]"
  by (simp add: delayedOpenPortal_def setTimeoutOpenPortal_def)

text \<open>
  Hence, after two hover starts, a dismissal leaves the timeout of the first
  one pending (the handles that \<^verbatim>\<open>setTimeout\<close> returns are fresh).
\<close>

lemma second_hover_leaves_first_pending:
  assumes "nextHandle s \<notin> set (pending s)"
    and "Suc (nextHandle s) \<notin> set (pending s)"
  shows "pending (cancelableClosePortal (delayedOpenPortal (delayedOpenPortal s))) =
         pending s @ [nextHandle s]"
  using assms
  by (simp add: cancelableClosePortal_def clearTimeout_def closePortal_def
        delayedOpenPortal_def setTimeoutOpenPortal_def)

text \<open>
  With one hover start, a dismissal before the delay elapses leaves no timeout
  pending, so the tooltip stays closed; without a dismissal the tooltip opens
  when the delay elapses.
\<close>

lemma tooltip_single_hover_dismissed:
  "pending (runTooltip closedTooltip [MouseOver, MouseOut pointerLeaves]) = [] \<and>
   \<not> isOpen (runTooltip closedTooltip [MouseOver, MouseOut pointerLeaves, TimeoutElapsed 1])"
  by (simp add: runTooltip_def closedTooltip_def pointerLeaves_def delayedOpenPortal_def
        setTimeoutOpenPortal_def handleBlur_def cancelableClosePortal_def clearTimeout_def
        closePortal_def timeoutElapsed_def)

lemma tooltip_single_hover_opens:
  "\<not> isOpen (runTooltip closedTooltip [MouseOver]) \<and>
   isOpen (runTooltip closedTooltip [MouseOver, TimeoutElapsed 1]) \<and>
   pending (runTooltip closedTooltip [MouseOver, TimeoutElapsed 1]) = []"
  by (simp add: runTooltip_def closedTooltip_def delayedOpenPortal_def
        setTimeoutOpenPortal_def timeoutElapsed_def openPortal_def)

text \<open>
  Claim C6. Two hover starts followed by a dismissal, all before any delay has
  elapsed: the dismissal clears only the second timeout. The first is still
  pending, and when its delay elapses the tooltip opens although the session
  was dismissed.
\<close>

theorem tooltip_earlier_timeout_opens_after_dismissal:
  "\<not> isOpen (runTooltip closedTooltip [MouseOver, MouseOver, MouseOut pointerLeaves]) \<and>
   timer (runTooltip closedTooltip [MouseOver, MouseOver]) = Some 2 \<and>
   pending (runTooltip closedTooltip [MouseOver, MouseOver]) = [1, 2] \<and>
   pending (runTooltip closedTooltip [MouseOver, MouseOver, MouseOut pointerLeaves]) = [1] \<and>
   isOpen (runTooltip closedTooltip
             [MouseOver, MouseOver, MouseOut pointerLeaves, TimeoutElapsed 1])"
  by (simp add: runTooltip_def closedTooltip_def pointerLeaves_def delayedOpenPortal_def
        setTimeoutOpenPortal_def handleBlur_def cancelableClosePortal_def clearTimeout_def
        closePortal_def openPortal_def timeoutElapsed_def)

end
